theory Spec2Isabelle
  imports Complex_Main "HOL-Library.Log_Nat"
begin

section \<open>JavaScript values\<close>

text \<open>
  The service is JavaScript on Node: request bodies, SDK responses and the payloads it
  builds are plain JavaScript values. A Number is an IEEE binary64: \<open>Fin q\<close> is the
  finite double whose exact value is the rational \<open>q\<close> (\<open>Fin 0\<close> is \<open>+0\<close>).
  A string is the list of its code units (code units below 256). An object is the list
  of its own properties in insertion order; a lookup takes the first binding of a key.
\<close>

datatype jsnum = NaN | PosInf | NegInf | NegZero | Fin rat

datatype json =
    JUndefined
  | JNull
  | JBool bool
  | JNum jsnum
  | JStr string
  | JArr "json list"
  | JObj "(string \<times> json) list"

subsection \<open>Rounding a rational to the nearest double\<close>

definition round_half_even :: "int \<Rightarrow> int \<Rightarrow> int" where
  "round_half_even p d =
     (let q = p div d; r = p mod d
      in if 2 * r < d then q
         else if d < 2 * r then q + 1
         else if even q then q else q + 1)"

text \<open>\<open>floor_log2 p d\<close> is the integer \<open>e\<close> with \<open>2^e \<le> p/d < 2^(e+1)\<close>, for positive \<open>p\<close>, \<open>d\<close>.\<close>

definition floor_log2 :: "int \<Rightarrow> int \<Rightarrow> int" where
  "floor_log2 p d =
     (let e = bitlen p - bitlen d
      in if (if 0 \<le> e then d * 2 ^ nat e \<le> p else d \<le> p * 2 ^ nat (- e))
         then e else e - 1)"

text \<open>
  \<open>to_double p d\<close> is the Number value of the positive real \<open>p/d\<close>: round to nearest,
  ties to even, on 53 bits of mantissa, with gradual underflow below \<open>2^-1022\<close> and
  overflow to \<open>Infinity\<close>.
\<close>

definition to_double :: "int \<Rightarrow> int \<Rightarrow> jsnum" where
  "to_double p d =
     (let e = floor_log2 p d;
          u = max (e - 52) (- 1074);
          m = (if 0 \<le> u then round_half_even p (d * 2 ^ nat u)
               else round_half_even (p * 2 ^ nat (- u)) d)
      in if 1024 \<le> e \<or> (u = 971 \<and> m = 2 ^ 53) then PosInf
         else if 0 \<le> u then Fin (of_int (m * 2 ^ nat u))
         else Fin (of_int m / of_int (2 ^ nat (- u))))"

fun negate :: "jsnum \<Rightarrow> jsnum" where
  "negate NaN = NaN"
| "negate PosInf = NegInf"
| "negate NegInf = PosInf"
| "negate NegZero = Fin 0"
| "negate (Fin q) = (if q = 0 then NegZero else Fin (- q))"

text \<open>The Number for \<open>\<plusminus> m \<times> 10^ex\<close>, a decimal literal's value.\<close>

definition number_of_decimal :: "bool \<Rightarrow> nat \<Rightarrow> int \<Rightarrow> jsnum" where
  "number_of_decimal neg m ex =
     (let x = (if m = 0 then Fin 0
               else if 0 \<le> ex then to_double (int m * 10 ^ nat ex) 1
               else to_double (int m) (10 ^ nat (- ex)))
      in if neg then negate x else x)"

subsection \<open>Reading numbers from strings\<close>

definition is_ws :: "char \<Rightarrow> bool" where
  "is_ws c = ((of_char c :: nat) \<in> {9, 10, 11, 12, 13, 32, 160})"

definition is_digit :: "char \<Rightarrow> bool" where
  "is_digit c = (48 \<le> (of_char c :: nat) \<and> (of_char c :: nat) \<le> 57)"

text \<open>The value of a digit in a radix up to 16, if it is one.\<close>

definition digit_in :: "nat \<Rightarrow> char \<Rightarrow> nat option" where
  "digit_in radix c =
     (let n = (of_char c :: nat);
          v = (if 48 \<le> n \<and> n \<le> 57 then Some (n - 48)
               else if 97 \<le> n \<and> n \<le> 102 then Some (n - 87)
               else if 65 \<le> n \<and> n \<le> 70 then Some (n - 55)
               else None)
      in case v of None \<Rightarrow> None | Some k \<Rightarrow> if k < radix then Some k else None)"

definition digits_val :: "nat \<Rightarrow> string \<Rightarrow> nat" where
  "digits_val radix ds = foldl (\<lambda>acc c. acc * radix + (case digit_in radix c of None \<Rightarrow> 0 | Some k \<Rightarrow> k)) 0 ds"

definition read_sign :: "string \<Rightarrow> bool \<times> string" where
  "read_sign s =
     (case s of
        c # t \<Rightarrow> if c = CHR ''-'' then (True, t) else if c = CHR ''+'' then (False, t) else (False, s)
      | [] \<Rightarrow> (False, s))"

text \<open>An optional exponent part \<open>e[+-]digits\<close>: its value and what follows it.\<close>

definition exponent_part :: "string \<Rightarrow> int \<times> string" where
  "exponent_part r =
     (case r of
        c # t \<Rightarrow>
          if c = CHR ''e'' \<or> c = CHR ''E'' then
            (let (neg, t') = read_sign t; es = takeWhile is_digit t'
             in if es = [] then (0, r)
                else ((if neg then - int (digits_val 10 es) else int (digits_val 10 es)),
                      dropWhile is_digit t'))
          else (0, r)
      | [] \<Rightarrow> (0, r))"

text \<open>
  The longest prefix that is an unsigned decimal literal (\<open>12\<close>, \<open>12.\<close>, \<open>12.5\<close>,
  \<open>.5\<close>, each with an optional exponent): mantissa, decimal exponent, and the rest.
\<close>

definition str_decimal :: "string \<Rightarrow> (nat \<times> int \<times> string) option" where
  "str_decimal s =
     (let ds = takeWhile is_digit s; r1 = dropWhile is_digit s;
          (fs, r2) = (case r1 of
                        c # t \<Rightarrow> if c = CHR ''.'' then (takeWhile is_digit t, dropWhile is_digit t)
                                 else ([], r1)
                      | [] \<Rightarrow> ([], r1))
      in if ds = [] \<and> fs = [] then None
         else (let (ex, r3) = exponent_part r2
               in Some (digits_val 10 (ds @ fs), ex - int (length fs), r3)))"

text \<open>\<open>parseFloat\<close> on a string: leading white space, a sign, then \<open>Infinity\<close> or the
  longest decimal literal; what follows is ignored; \<open>NaN\<close> when there is none.\<close>

definition parseFloat_str :: "string \<Rightarrow> jsnum" where
  "parseFloat_str s =
     (let (neg, s2) = read_sign (dropWhile is_ws s)
      in if take 8 s2 = ''Infinity'' then (if neg then NegInf else PosInf)
         else case str_decimal s2 of
                None \<Rightarrow> NaN
              | Some (m, ex, _) \<Rightarrow> number_of_decimal neg m ex)"

text \<open>\<open>parseInt\<close> on a string with no radix argument: radix 16 after \<open>0x\<close>, else 10.\<close>

definition parseInt_str :: "string \<Rightarrow> jsnum" where
  "parseInt_str s =
     (let (neg, s2) = read_sign (dropWhile is_ws s);
          hex = (take 2 s2 = ''0x'' \<or> take 2 s2 = ''0X'');
          radix = (if hex then 16 else 10);
          s3 = (if hex then drop 2 s2 else s2);
          ds = takeWhile (\<lambda>c. digit_in radix c \<noteq> None) s3
      in if ds = [] then NaN else number_of_decimal neg (digits_val radix ds) 0)"

text \<open>
  The conversion of a whole string to a Number (\<open>ToNumber\<close> on a string): white space
  trimmed at both ends, the empty string is \<open>0\<close>, then an unsigned hexadecimal, octal
  or binary literal, or a signed decimal literal or \<open>Infinity\<close>, with nothing after it.
\<close>

definition radix_literal :: "nat \<Rightarrow> string \<Rightarrow> jsnum" where
  "radix_literal radix ds =
     (if ds \<noteq> [] \<and> list_all (\<lambda>c. digit_in radix c \<noteq> None) ds
      then number_of_decimal False (digits_val radix ds) 0 else NaN)"

definition string_to_number :: "string \<Rightarrow> jsnum" where
  "string_to_number s =
     (let t = rev (dropWhile is_ws (rev (dropWhile is_ws s)));
          p = take 2 t
      in if t = [] then Fin 0
         else if p = ''0x'' \<or> p = ''0X'' then radix_literal 16 (drop 2 t)
         else if p = ''0o'' \<or> p = ''0O'' then radix_literal 8 (drop 2 t)
         else if p = ''0b'' \<or> p = ''0B'' then radix_literal 2 (drop 2 t)
         else (let (neg, t2) = read_sign t
               in if t2 = ''Infinity'' then (if neg then NegInf else PosInf)
                  else case str_decimal t2 of
                         None \<Rightarrow> NaN
                       | Some (m, ex, r) \<Rightarrow> if r = [] then number_of_decimal neg m ex else NaN))"

subsection \<open>Conversions, truthiness, property access\<close>

text \<open>
  What can be thrown, or reject a promise: a value that came from an SDK, a
  \<open>TypeError\<close> raised by the engine (with V8's wording), or \<open>new Error(message)\<close>.
\<close>

datatype exn = Thrown json | TypeError string | Error string

text \<open>
  \<open>ToString\<close>. The digits that \<open>Number.prototype.toString\<close> prints for a Number are
  taken as the parameter \<open>n2s\<close>: nothing below depends on them. An array prints its
  elements joined by commas, \<open>undefined\<close> and \<open>null\<close> as nothing. An object is converted
  through its \<open>toString\<close> method: a value read from JSON holds no function, so an
  object with a property \<open>toString\<close> of its own has nothing to call there, its
  \<open>valueOf\<close> gives no primitive either, and the conversion throws; any other object
  inherits the method that prints \<open>[object Object]\<close>.
\<close>

fun join_comma :: "(exn + string) list \<Rightarrow> exn + string" where
  "join_comma [] = Inr []"
| "join_comma (Inl e # rs) = Inl e"
| "join_comma (Inr s # rs) =
     (case join_comma rs of
        Inl e \<Rightarrow> Inl e
      | Inr t \<Rightarrow> Inr (if rs = [] then s else s @ '','' @ t))"

fun to_string :: "(jsnum \<Rightarrow> string) \<Rightarrow> json \<Rightarrow> exn + string" where
  "to_string n2s JUndefined = Inr ''undefined''"
| "to_string n2s JNull = Inr ''null''"
| "to_string n2s (JBool b) = Inr (if b then ''true'' else ''false'')"
| "to_string n2s (JNum n) = Inr (n2s n)"
| "to_string n2s (JStr s) = Inr s"
| "to_string n2s (JArr xs) =
     join_comma (map (\<lambda>x. if x = JUndefined \<or> x = JNull then Inr [] else to_string n2s x) xs)"
| "to_string n2s (JObj kvs) =
     (if map_of kvs ''toString'' \<noteq> None
      then Inl (TypeError ''Cannot convert object to primitive value'')
      else Inr ''[object Object]'')"

text \<open>
  \<open>ToNumber\<close>. An array or an object is first made a primitive, which for values
  read from JSON is the string above, or the same \<open>TypeError\<close>.
\<close>

fun to_number :: "(jsnum \<Rightarrow> string) \<Rightarrow> json \<Rightarrow> exn + jsnum" where
  "to_number n2s JUndefined = Inr NaN"
| "to_number n2s JNull = Inr (Fin 0)"
| "to_number n2s (JBool b) = Inr (if b then Fin 1 else Fin 0)"
| "to_number n2s (JNum n) = Inr n"
| "to_number n2s v =
     (case to_string n2s v of Inl e \<Rightarrow> Inl e | Inr s \<Rightarrow> Inr (string_to_number s))"

text \<open>The global functions \<open>parseInt(v)\<close> and \<open>parseFloat(v)\<close> convert their argument to a
  string first.\<close>

definition parseInt :: "(jsnum \<Rightarrow> string) \<Rightarrow> json \<Rightarrow> exn + jsnum" where
  "parseInt n2s v =
     (case to_string n2s v of Inl e \<Rightarrow> Inl e | Inr s \<Rightarrow> Inr (parseInt_str s))"

definition parseFloat :: "(jsnum \<Rightarrow> string) \<Rightarrow> json \<Rightarrow> exn + jsnum" where
  "parseFloat n2s v =
     (case to_string n2s v of Inl e \<Rightarrow> Inl e | Inr s \<Rightarrow> Inr (parseFloat_str s))"

text \<open>\<open>x > 0\<close>.\<close>

definition gt_zero :: "(jsnum \<Rightarrow> string) \<Rightarrow> json \<Rightarrow> exn + bool" where
  "gt_zero n2s x =
     (case to_number n2s x of
        Inl e \<Rightarrow> Inl e
      | Inr n \<Rightarrow> Inr (case n of PosInf \<Rightarrow> True | Fin q \<Rightarrow> 0 < q | _ \<Rightarrow> False))"

fun truthy :: "json \<Rightarrow> bool" where
  "truthy JUndefined = False"
| "truthy JNull = False"
| "truthy (JBool b) = b"
| "truthy (JNum n) = (n \<noteq> NaN \<and> n \<noteq> NegZero \<and> n \<noteq> Fin 0)"
| "truthy (JStr s) = (s \<noteq> [])"
| "truthy (JArr xs) = True"
| "truthy (JObj kvs) = True"

definition nullish :: "json \<Rightarrow> bool" where
  "nullish v = (v = JUndefined \<or> v = JNull)"

text \<open>
  \<open>get_prop v k\<close> is \<open>v.k\<close> on a value that is neither \<open>undefined\<close> nor \<open>null\<close>, for a name
  \<open>k\<close> that no prototype defines (every name the service reads is such; \<open>length\<close> is
  an own property of arrays and strings). \<open>index0 v\<close> is \<open>v[0]\<close>.
\<close>

fun get_prop :: "json \<Rightarrow> string \<Rightarrow> json" where
  "get_prop (JObj kvs) k = (case map_of kvs k of None \<Rightarrow> JUndefined | Some v \<Rightarrow> v)"
| "get_prop (JArr xs) k = (if k = ''length'' then JNum (Fin (of_nat (length xs))) else JUndefined)"
| "get_prop (JStr s) k = (if k = ''length'' then JNum (Fin (of_nat (length s))) else JUndefined)"
| "get_prop v k = JUndefined"

fun index0 :: "json \<Rightarrow> json" where
  "index0 (JArr xs) = (case xs of [] \<Rightarrow> JUndefined | x # _ \<Rightarrow> x)"
| "index0 (JStr s) = (case s of [] \<Rightarrow> JUndefined | c # _ \<Rightarrow> JStr [c])"
| "index0 (JObj kvs) = (case map_of kvs ''0'' of None \<Rightarrow> JUndefined | Some v \<Rightarrow> v)"
| "index0 v = JUndefined"

section \<open>The service's collaborators\<close>

text \<open>
  The two SDKs are outside the repository; the service sees them through the calls below.

  The OAuth client (\<open>intuit-oauth\<close>) holds a token object; \<open>getToken()\<close> returns it and
  \<open>isAccessTokenValid()\<close> says whether its access token has not expired.
\<close>

record token =
  realmId :: json
  access_token :: json
  refresh_token :: json

text \<open>The variables of \<open>process.env\<close> that the service reads.\<close>

record process_env =
  CLIENT_ID :: json
  CLIENT_SECRET :: json
  ENVIRONMENT :: json

text \<open>The arguments of \<open>new QuickBooks(...)\<close>, in their order.\<close>

record qbo_client =
  consumerKey :: json
  consumerSecret :: json
  oauth_token :: json
  tokenSecret :: json
  client_realmId :: json
  useSandbox :: bool
  debug :: bool
  minorversion :: json
  oauthversion :: string
  refreshToken :: json

text \<open>A call made to the accounting API, with the argument the service passes.\<close>

datatype call =
    is_FindCustomers: FindCustomers json
  | is_CreateCustomer: CreateCustomer json
  | is_FindItems: FindItems json
  | is_CreateInvoice: CreateInvoice json
  | is_FindInvoices: FindInvoices json

text \<open>
  \<open>qbo.findInvoices\<close> either throws before it returns, or later calls back with
  \<open>(err, data)\<close>.
\<close>

datatype outcome = Throws json | CallsBack json json

text \<open>
  \<open>await oauthClient.createToken(req.url)\<close> rejects with an error or resolves with an
  object whose \<open>getToken()\<close> is the new token.
\<close>

datatype exchange = Rejected json | Resolved token

text \<open>
  What is outside the handlers during one request. Each SDK method answers through its
  Node-style callback \<open>(err, data)\<close>, once, after the calling code has returned: the
  record gives the pair it calls back with, for the client and the argument it was given.
  \<open>findItems\<close> is also given the position of the lookup among the request's line items,
  so that two lookups of one SKU may be answered differently, and \<open>arrival\<close> gives
  the instant at which the callback of the lookup at a position fires. Since a request
  makes each other call at most once, any behaviour of the upstream platform during the
  request is such a record. \<open>createToken\<close> is given the callback URL and the token
  that the OAuth client holds; it gives the token the client holds once its promise has
  settled (the SDK works on that token itself) and how the promise settles.
\<close>

record world =
  env :: process_env
  isAccessTokenValid :: bool
  getToken :: token
  numberToString :: "jsnum \<Rightarrow> string"
  findCustomers :: "qbo_client \<Rightarrow> json \<Rightarrow> json \<times> json"
  createCustomer :: "qbo_client \<Rightarrow> json \<Rightarrow> json \<times> json"
  findItems :: "qbo_client \<Rightarrow> nat \<Rightarrow> json \<Rightarrow> json \<times> json"
  arrival :: "nat \<Rightarrow> nat"
  createInvoice :: "qbo_client \<Rightarrow> json \<Rightarrow> json \<times> json"
  findInvoices :: "qbo_client \<Rightarrow> json \<Rightarrow> outcome"
  createToken :: "string \<Rightarrow> token \<Rightarrow> token \<times> exchange"

text \<open>
  What a handler does with the response object: a redirect, a status with a JSON body
  (the value handed to \<open>res.json\<close>), or nothing at all when an exception escapes from a
  callback that runs outside the handler's \<open>try\<close>.
\<close>

datatype response = Redirect string | Json nat json | NoResponse

text \<open>The \<open>message\<close> property of what was thrown.\<close>

fun message_of :: "exn \<Rightarrow> json" where
  "message_of (Thrown v) = get_prop v ''message''"
| "message_of (TypeError m) = JStr m"
| "message_of (Error m) = JStr m"

text \<open>Reading property \<open>k\<close> of \<open>undefined\<close> or \<open>null\<close>.\<close>

definition cannot_read :: "json \<Rightarrow> string \<Rightarrow> exn" where
  "cannot_read v k =
     TypeError (''Cannot read properties of '' @ (if v = JNull then ''null'' else ''undefined'')
                @ '' (reading '' @ [CHR 0x27] @ k @ [CHR 0x27] @ '')'')"

section \<open>routes/invoiceRoutes.js\<close>

definition initializeQBO :: "world \<Rightarrow> qbo_client" where
  "initializeQBO w =
     (let authResponse = getToken w
      in \<lparr> consumerKey = CLIENT_ID (env w),
           consumerSecret = CLIENT_SECRET (env w),
           oauth_token = access_token authResponse,
           tokenSecret = JBool False,
           client_realmId = realmId authResponse,
           useSandbox = (ENVIRONMENT (env w) = JStr ''sandbox''),
           debug = True,
           minorversion = JNull,
           oauthversion = ''2.0'',
           refreshToken = refresh_token authResponse \<rparr>)"

text \<open>
  The helpers return the calls they issue and how their promise settles: \<open>Inl\<close> is a
  rejection, \<open>Inr\<close> the value it resolves with.
\<close>

definition customer_criteria :: "json \<Rightarrow> json" where
  "customer_criteria company =
     JArr [JObj [(''field'', JStr ''CompanyName''), (''value'', company), (''operator'', JStr ''='')]]"

definition newCustomer :: "json \<Rightarrow> json" where
  "newCustomer customerData =
     JObj [(''CompanyName'', get_prop customerData ''company''),
           (''DisplayName'', get_prop customerData ''company''),
           (''PrimaryEmailAddr'', JObj [(''Address'', get_prop customerData ''email'')]),
           (''BillAddr'', JObj [(''Line1'', get_prop customerData ''billingAddress''),
                               (''City'', get_prop customerData ''billingTown''),
                               (''CountrySubDivisionCode'', get_prop customerData ''billingState''),
                               (''PostalCode'', get_prop customerData ''billingZipCode'')]),
           (''ShipAddr'', JObj [(''Line1'', get_prop customerData ''shippingAddress''),
                               (''City'', get_prop customerData ''shippingTown''),
                               (''CountrySubDivisionCode'', get_prop customerData ''shippingState''),
                               (''PostalCode'', get_prop customerData ''shippingZipCode'')])]"

text \<open>The test \<open>customers && customers.QueryResponse && customers.QueryResponse.Customer &&
  customers.QueryResponse.Customer.length > 0\<close>.\<close>

definition customer_found :: "world \<Rightarrow> json \<Rightarrow> exn + bool" where
  "customer_found w customers =
     (if truthy customers
         \<and> truthy (get_prop customers ''QueryResponse'')
         \<and> truthy (get_prop (get_prop customers ''QueryResponse'') ''Customer'')
      then gt_zero (numberToString w)
             (get_prop (get_prop (get_prop customers ''QueryResponse'') ''Customer'') ''length'')
      else Inr False)"

text \<open>
  \<open>findOrCreateCustomer\<close>: the calls it issues and how its promise settles. The test
  above runs in the callback of \<open>qbo.findCustomers\<close>, which the SDK calls: an exception
  there is not caught by the promise, which then never settles (\<open>None\<close>).
\<close>

definition findOrCreateCustomer ::
  "world \<Rightarrow> qbo_client \<Rightarrow> json \<Rightarrow> call list \<times> (exn + json) option" where
  "findOrCreateCustomer w qbo customerData =
     (if nullish customerData then ([], Some (Inl (cannot_read customerData ''company'')))
      else
        (let criteria = customer_criteria (get_prop customerData ''company'');
             (err, customers) = findCustomers w qbo criteria
         in if truthy err then ([FindCustomers criteria], Some (Inl (Thrown err)))
            else
              (case customer_found w customers of
                 Inl e \<Rightarrow> ([FindCustomers criteria], None)
               | Inr found \<Rightarrow>
                   if found
                   then ([FindCustomers criteria],
                         Some (Inr (index0 (get_prop (get_prop customers ''QueryResponse'') ''Customer''))))
                   else
                     (let (err', customer) = createCustomer w qbo (newCustomer customerData)
                      in ([FindCustomers criteria, CreateCustomer (newCustomer customerData)],
                          Some (if truthy err' then Inl (Thrown err') else Inr customer))))))"

definition item_criteria :: "json \<Rightarrow> json" where
  "item_criteria sku =
     JArr [JObj [(''field'', JStr ''Sku''), (''value'', sku), (''operator'', JStr ''='')]]"

text \<open>\<open>findItem\<close>, for the lookup at position \<open>i\<close>.\<close>

definition findItem :: "world \<Rightarrow> qbo_client \<Rightarrow> nat \<Rightarrow> json \<Rightarrow> call list \<times> (exn + json)" where
  "findItem w qbo i sku =
     (let (err, items) = findItems w qbo i (item_criteria sku)
      in ([FindItems (item_criteria sku)],
          if truthy err then Inl (Thrown err)
          else if truthy items
                  \<and> truthy (get_prop items ''QueryResponse'')
                  \<and> truthy (get_prop (get_prop items ''QueryResponse'') ''Item'')
          then Inr (index0 (get_prop (get_prop items ''QueryResponse'') ''Item''))
          else Inr JNull))"

text \<open>
  The object built for one line item from the submitted item and the catalog item. Its
  properties are evaluated in the order they are written: \<open>Amount\<close>, then \<open>Qty\<close>,
  then \<open>UnitPrice\<close>; a conversion that throws ends the evaluation.
\<close>

definition line_entry :: "world \<Rightarrow> json \<Rightarrow> json \<Rightarrow> exn + json" where
  "line_entry w item qboItem =
     (case parseFloat (numberToString w) (get_prop item ''totalAmount'') of
        Inl e \<Rightarrow> Inl e
      | Inr amount \<Rightarrow>
     (case parseInt (numberToString w) (get_prop item ''quantity'') of
        Inl e \<Rightarrow> Inl e
      | Inr qty \<Rightarrow>
     (case parseFloat (numberToString w) (get_prop item ''unitPrice'') of
        Inl e \<Rightarrow> Inl e
      | Inr price \<Rightarrow>
          Inr (JObj [(''Amount'', JNum amount),
                     (''DetailType'', JStr ''SalesItemLineDetail''),
                     (''Description'', get_prop item ''description''),
                     (''SalesItemLineDetail'',
                        JObj [(''ItemRef'', JObj [(''value'', get_prop qboItem ''Id''),
                                                 (''name'', get_prop qboItem ''Name'')]),
                              (''Qty'', JNum qty),
                              (''UnitPrice'', JNum price)])]))))"

text \<open>What \<open>throw new Error(`Item with SKU ${item.sku} not found`)\<close> throws: the error,
  or the \<open>TypeError\<close> of the template literal when the SKU cannot be made a string.\<close>

definition not_found :: "world \<Rightarrow> json \<Rightarrow> exn" where
  "not_found w sku =
     (case to_string (numberToString w) sku of
        Inl e \<Rightarrow> e
      | Inr s \<Rightarrow> Error (''Item with SKU '' @ s @ '' not found''))"

text \<open>
  The \<open>async (item) => ...\<close> that is mapped over \<open>req.body.lineItems\<close>, at position \<open>i\<close>:
  the calls it issues before it first suspends, the instant at which its promise
  settles (\<open>0\<close>: before any callback fires), and how it settles.
\<close>

definition processLineItem ::
  "world \<Rightarrow> qbo_client \<Rightarrow> nat \<Rightarrow> json \<Rightarrow> call list \<times> nat \<times> (exn + json)" where
  "processLineItem w qbo i item =
     (if nullish item then ([], 0, Inl (cannot_read item ''sku''))
      else
        (let (calls, found) = findItem w qbo i (get_prop item ''sku'')
         in (calls, Suc (arrival w i),
             case found of
               Inl e \<Rightarrow> Inl e
             | Inr qboItem \<Rightarrow>
                 if \<not> truthy qboItem then Inl (not_found w (get_prop item ''sku''))
                 else line_entry w item qboItem)))"

text \<open>
  \<open>Promise.all\<close> over promises given with the instants at which they settle: it rejects
  with the reason of the promise that rejects first (the earlier in the list, of two that
  reject at one instant), and otherwise resolves with the values in the list's order.
\<close>

fun first_rejection :: "(nat \<times> (exn + 'a)) list \<Rightarrow> (nat \<times> exn) option" where
  "first_rejection [] = None"
| "first_rejection ((t, Inr v) # ps) = first_rejection ps"
| "first_rejection ((t, Inl e) # ps) =
     (case first_rejection ps of
        None \<Rightarrow> Some (t, e)
      | Some (t', e') \<Rightarrow> if t' < t then Some (t', e') else Some (t, e))"

definition promise_all :: "(nat \<times> (exn + 'a)) list \<Rightarrow> exn + 'a list" where
  "promise_all ps =
     (case first_rejection ps of
        Some (t, e) \<Rightarrow> Inl e
      | None \<Rightarrow> Inr (concat (map (\<lambda>(t, r). case r of Inl e \<Rightarrow> [] | Inr v \<Rightarrow> [v]) ps)))"

text \<open>
  \<open>await Promise.all(req.body.lineItems.map(async (item) => ...))\<close>: every item's
  function runs up to its first \<open>await\<close>, in the array's order, before anything
  else happens, so all the lookups are issued, whatever their answers.
\<close>

definition processLineItems ::
  "world \<Rightarrow> qbo_client \<Rightarrow> json list \<Rightarrow> call list \<times> (exn + json list)" where
  "processLineItems w qbo items =
     (let runs = map (\<lambda>i. processLineItem w qbo i (items ! i)) [0..<length items]
      in (concat (map fst runs), promise_all (map snd runs)))"

definition invoiceData :: "json \<Rightarrow> json \<Rightarrow> json list \<Rightarrow> json" where
  "invoiceData customer body lineItems =
     JObj [(''CustomerRef'', JObj [(''value'', get_prop customer ''Id'')]),
           (''BillEmail'', JObj [(''Address'', get_prop body ''email'')]),
           (''ShipDate'', get_prop body ''shippingDate''),
           (''Line'', JArr lineItems),
           (''BillAddr'', JObj [(''Line1'', get_prop body ''billingAddress''),
                               (''City'', get_prop body ''billingTown''),
                               (''CountrySubDivisionCode'', get_prop body ''billingState''),
                               (''PostalCode'', get_prop body ''billingZipCode'')]),
           (''ShipAddr'', JObj [(''Line1'', get_prop body ''shippingAddress''),
                               (''City'', get_prop body ''shippingTown''),
                               (''CountrySubDivisionCode'', get_prop body ''shippingState''),
                               (''PostalCode'', get_prop body ''shippingZipCode'')])]"

text \<open>The handler's \<open>catch\<close>.\<close>

definition failed_to_create :: "exn \<Rightarrow> response" where
  "failed_to_create e =
     Json 500 (JObj [(''error'', JStr ''Failed to create invoice''), (''details'', message_of e)])"

text \<open>The callback given to \<open>qbo.createInvoice\<close>; it runs after the handler has returned.\<close>

definition createInvoice_callback :: "json \<Rightarrow> json \<Rightarrow> response" where
  "createInvoice_callback err invoice =
     (if truthy err
      then Json 500 (JObj [(''error'', JStr ''Failed to create invoice''),
                           (''details'', get_prop err ''message'')])
      else if nullish invoice then NoResponse
      else Json 201 (JObj [(''success'', JBool True),
                           (''message'', JStr ''Invoice created successfully''),
                           (''invoice'', invoice)]))"

text \<open>
  \<open>router.post("/invoices/create", ...)\<close>, mounted under \<open>/api\<close>: the calls made to the
  accounting API, in the order they are issued, and the response.
\<close>

definition post_invoices_create :: "world \<Rightarrow> json \<Rightarrow> call list \<times> response" where
  "post_invoices_create w body =
     (if \<not> isAccessTokenValid w
      then ([], Json 401 (JObj [(''error'', JStr ''Authentication required''),
                                (''message'', JStr ''Please visit /auth endpoint to authenticate with QuickBooks'')]))
      else
        (let qbo = initializeQBO w;
             (calls1, settled) = findOrCreateCustomer w qbo body
         in case settled of
              None \<Rightarrow> (calls1, NoResponse)
            | Some (Inl e) \<Rightarrow> (calls1, failed_to_create e)
            | Some (Inr customer) \<Rightarrow>
                if nullish customer then (calls1, failed_to_create (cannot_read customer ''Id''))
                else if nullish body then (calls1, failed_to_create (cannot_read body ''lineItems''))
                else
                  (case get_prop body ''lineItems'' of
                     JArr items \<Rightarrow>
                       (let (calls2, settled') = processLineItems w qbo items
                        in case settled' of
                             Inl e \<Rightarrow> (calls1 @ calls2, failed_to_create e)
                           | Inr lineItems \<Rightarrow>
                               (let data = invoiceData customer body lineItems;
                                    (err, invoice) = createInvoice w qbo data
                                in (calls1 @ calls2 @ [CreateInvoice data],
                                    createInvoice_callback err invoice)))
                   | v \<Rightarrow>
                       (calls1,
                        failed_to_create
                          (if nullish v then cannot_read v ''map''
                           else TypeError ''req.body.lineItems.map is not a function'')))))"

section \<open>index.js and its variant\<close>

text \<open>
  The repository has two entry points. Their \<open>GET /api/invoices\<close> handlers are the same
  text; their \<open>GET /callback\<close> handlers differ in what they answer.
\<close>

definition failed_to_fetch :: response where
  "failed_to_fetch = Json 500 (JObj [(''error'', JStr ''Failed to fetch invoices'')])"

definition get_api_invoices :: "world \<Rightarrow> call list \<times> response" where
  "get_api_invoices w =
     (if \<not> isAccessTokenValid w then ([], Redirect ''/auth'')
      else
        (let authResponse = getToken w;
             qbo = \<lparr> consumerKey = CLIENT_ID (env w),
                     consumerSecret = CLIENT_SECRET (env w),
                     oauth_token = access_token authResponse,
                     tokenSecret = JBool False,
                     client_realmId = realmId authResponse,
                     useSandbox = (ENVIRONMENT (env w) = JStr ''sandbox''),
                     debug = True,
                     minorversion = JNull,
                     oauthversion = ''2.0'',
                     refreshToken = refresh_token authResponse \<rparr>;
             criteria = JObj [(''fetchAll'', JBool True)]
         in case findInvoices w qbo criteria of
              CallsBack err invoices \<Rightarrow>
                ([FindInvoices criteria],
                 if truthy err then failed_to_fetch
                 else if nullish invoices then NoResponse
                 else Json 200 invoices)
            | Throws error \<Rightarrow>
                ([FindInvoices criteria],
                 if nullish error then NoResponse
                 else if truthy (get_prop error ''authResponse'')
                         \<and> get_prop (get_prop error ''authResponse'') ''status'' = JNum (Fin 401)
                 then Redirect ''/auth''
                 else failed_to_fetch)))"

text \<open>
  \<open>GET /callback\<close>, given the callback URL and the token the OAuth client holds when
  the request arrives: the arguments of the \<open>oauthClient.setToken\<close> calls the handler
  makes, the token the client holds afterwards, and the response. First the handler of
  \<open>index.js\<close>, then the variant's.
\<close>

definition get_callback :: "world \<Rightarrow> string \<Rightarrow> token \<Rightarrow> token list \<times> token \<times> response" where
  "get_callback w url stored =
     (case createToken w url stored of
        (held, Resolved t) \<Rightarrow>
          ([t], t, Json 200 (JObj [(''success'', JBool True),
                                   (''message'', JStr ''Authentication successful''),
                                   (''realmId'', realmId t)]))
      | (held, Rejected error) \<Rightarrow>
          ([], held,
           if nullish error then NoResponse
           else Json 500 (JObj [(''error'', JStr ''Authentication failed''),
                                (''details'', get_prop error ''message'')])))"

definition get_callback_variant ::
  "world \<Rightarrow> string \<Rightarrow> token \<Rightarrow> token list \<times> token \<times> response" where
  "get_callback_variant w url stored =
     (case createToken w url stored of
        (held, Resolved t) \<Rightarrow> ([t], t, Redirect ''/api/invoices'')
      | (held, Rejected error) \<Rightarrow>
          ([], held,
           if nullish error then NoResponse
           else Json 500 (JObj [(''error'', JStr ''Authentication failed'')])))"

section \<open>Notions used by the properties\<close>

text \<open>
  These say what the accounting API answered, from the answers themselves and not
  through the handler's helpers.

  What the catalog calls back with for the line item at position \<open>i\<close>, in the handler
  of \<open>POST /api/invoices/create\<close>, and the catalog item that the answer holds, if any.
\<close>

definition catalog_answer :: "world \<Rightarrow> nat \<Rightarrow> json \<Rightarrow> json \<times> json" where
  "catalog_answer w i item =
     findItems w (initializeQBO w) i (item_criteria (get_prop item ''sku''))"

definition first_item :: "json \<Rightarrow> json" where
  "first_item items =
     (if truthy items \<and> truthy (get_prop items ''QueryResponse'')
         \<and> truthy (get_prop (get_prop items ''QueryResponse'') ''Item'')
      then index0 (get_prop (get_prop items ''QueryResponse'') ''Item'')
      else JNull)"


text \<open>The lookup fails: it reports an error, or answers with no item.\<close>

definition lookup_fails :: "world \<Rightarrow> nat \<Rightarrow> json \<Rightarrow> bool" where
  "lookup_fails w i item =
     (\<not> nullish item \<and> (truthy (fst (catalog_answer w i item))
                         \<or> \<not> truthy (first_item (snd (catalog_answer w i item)))))"



section \<open>Example requests\<close>

text \<open>
  A world in which the token is valid, the company is already a customer (id 7), the
  catalog has the SKU \<open>A1\<close> (id 99) and nothing else, and every call succeeds; and
  variations of it.
\<close>

definition demo_token :: token where
  "demo_token =
     \<lparr> realmId = JStr ''4620816365'', access_token = JStr ''at'', refresh_token = JStr ''rt'' \<rparr>"

definition no_rows :: json where
  "no_rows = JObj [(''QueryResponse'', JObj [])]"

definition demo_world :: world where
  "demo_world =
     \<lparr> env = \<lparr> CLIENT_ID = JStr ''id'', CLIENT_SECRET = JStr ''secret'',
               ENVIRONMENT = JStr ''sandbox'' \<rparr>,
       isAccessTokenValid = True,
       getToken = demo_token,
       numberToString = (\<lambda>n. ''0''),
       findCustomers = (\<lambda>qbo q.
         (JNull, JObj [(''QueryResponse'', JObj [(''Customer'', JArr [JObj [(''Id'', JStr ''7'')]])])])),
       createCustomer = (\<lambda>qbo p. (JNull, JObj [(''Id'', JStr ''8'')])),
       findItems = (\<lambda>qbo i q.
         if q = item_criteria (JStr ''A1'')
         then (JNull, JObj [(''QueryResponse'',
                 JObj [(''Item'', JArr [JObj [(''Id'', JStr ''99''), (''Name'', JStr ''Widget'')]])])])
         else (JNull, no_rows)),
       arrival = (\<lambda>i. i),
       createInvoice = (\<lambda>qbo p. (JNull, JObj [(''Id'', JStr ''130'')])),
       findInvoices = (\<lambda>qbo q. CallsBack JNull no_rows),
       createToken = (\<lambda>url held.
         (held \<lparr> realmId := JStr ''4620816365'' \<rparr>,
          Resolved \<lparr> realmId = JStr ''4620816365'', access_token = JStr ''at2'',
                     refresh_token = JStr ''rt2'' \<rparr>)) \<rparr>"

definition new_company_world :: world where
  "new_company_world = demo_world \<lparr> findCustomers := (\<lambda>qbo q. (JNull, no_rows)) \<rparr>"


definition signed_out_world :: world where
  "signed_out_world = demo_world \<lparr> isAccessTokenValid := False \<rparr>"

definition unauthorized :: json where
  "unauthorized =
     JObj [(''message'', JStr ''Unauthorized''),
           (''authResponse'', JObj [(''status'', JNum (Fin 401))])]"

definition demo_item :: json where
  "demo_item =
     JObj [(''sku'', JStr ''A1''), (''quantity'', JStr ''2''),
           (''unitPrice'', JStr ''10.00''), (''totalAmount'', JStr ''20.00'')]"

definition body_with :: "json list \<Rightarrow> json" where
  "body_with items =
     JObj [(''company'', JStr ''Acme''), (''email'', JStr ''ap@acme.test''),
           (''billingAddress'', JStr ''1 Main St''), (''billingTown'', JStr ''Springfield''),
           (''billingState'', JStr ''IL''), (''billingZipCode'', JStr ''62701''),
           (''shippingAddress'', JStr ''2 Dock Rd''), (''shippingTown'', JStr ''Springfield''),
           (''shippingState'', JStr ''IL''), (''shippingZipCode'', JStr ''62702''),
           (''lineItems'', JArr items),
           (''shippingDate'', JStr ''2024-05-01'')]"

definition unknown_item :: json where
  "unknown_item =
     JObj [(''sku'', JStr ''X9''), (''quantity'', JStr ''1''),
           (''unitPrice'', JStr ''5.00''), (''totalAmount'', JStr ''5.00'')]"

text \<open>The invoice payload built in \<open>demo_world\<close> for the body with the line item \<open>A1\<close>.\<close>

definition demo_invoice :: json where
  "demo_invoice =
     invoiceData (JObj [(''Id'', JStr ''7'')]) (body_with [demo_item])
       [JObj [(''Amount'', JNum (Fin 20)),
              (''DetailType'', JStr ''SalesItemLineDetail''),
              (''Description'', JUndefined),
              (''SalesItemLineDetail'',
                 JObj [(''ItemRef'', JObj [(''value'', JStr ''99''), (''name'', JStr ''Widget'')]),
                       (''Qty'', JNum (Fin 2)),
                       (''UnitPrice'', JNum (Fin 10))])]]"

text \<open>
  A world in which the exchange of the authorization code fails. As the SDK's
  \<open>createToken\<close> does, it has by then written the \<open>realmId\<close> of the callback URL into the
  token that the client holds.
\<close>

definition failed_exchange_world :: world where
  "failed_exchange_world =
     demo_world \<lparr> createToken := (\<lambda>url held.
       (held \<lparr> realmId := JStr ''999'' \<rparr>, Rejected (JObj [(''message'', JStr ''invalid_grant'')]))) \<rparr>"

definition callback_url :: string where
  "callback_url = ''/callback?code=expired&state=randomState&realmId=999''"

section \<open>Properties\<close>

lemmas demo_defs =
  demo_world_def demo_token_def no_rows_def demo_item_def body_with_def

subsection \<open>Auxiliary facts\<close>

lemma findOrCreateCustomer_calls:
  "fst (findOrCreateCustomer w qbo body) = []
   \<or> fst (findOrCreateCustomer w qbo body) = [FindCustomers (customer_criteria (get_prop body ''company''))]
   \<or> fst (findOrCreateCustomer w qbo body) =
        [FindCustomers (customer_criteria (get_prop body ''company'')), CreateCustomer (newCustomer body)]"
  by (simp add: findOrCreateCustomer_def Let_def split: prod.splits sum.splits)

lemma processLineItem_calls: "list_all is_FindItems (fst (processLineItem w qbo i item))"
  by (simp add: processLineItem_def findItem_def Let_def split: prod.splits)

lemma first_rejection_mem: "first_rejection ps = Some (t, e) \<Longrightarrow> (t, Inl e) \<in> set ps"
  by (induction ps arbitrary: t e rule: first_rejection.induct)
     (auto split: option.splits if_splits)

lemma first_rejection_None: "first_rejection ps = None \<Longrightarrow> (t, Inl e) \<notin> set ps"
  by (induction ps rule: first_rejection.induct) (auto split: option.splits if_splits)

lemma promise_all_rejected: "promise_all ps = Inl e \<Longrightarrow> \<exists>t. (t, Inl e) \<in> set ps"
  by (auto simp: promise_all_def split: option.splits dest: first_rejection_mem)

lemma promise_all_rejects: "(t, Inl e) \<in> set ps \<Longrightarrow> \<exists>e'. promise_all ps = Inl e'"
  by (cases "first_rejection ps") (auto simp: promise_all_def dest: first_rejection_None)

lemma processLineItems_rejected:
  assumes "snd (processLineItems w qbo items) = Inl e"
  shows "\<exists>j<length items. snd (snd (processLineItem w qbo j (items ! j))) = Inl e"
proof -
  from assms have "promise_all (map (\<lambda>i. snd (processLineItem w qbo i (items ! i))) [0..<length items]) = Inl e"
    by (simp add: processLineItems_def Let_def comp_def)
  from promise_all_rejected [OF this] obtain t where
    "(t, Inl e) \<in> (\<lambda>i. snd (processLineItem w qbo i (items ! i))) ` {0..<length items}"
    by auto
  then obtain j where "j < length items" "snd (processLineItem w qbo j (items ! j)) = (t, Inl e)"
    by (auto simp: image_iff)
  then show ?thesis by auto
qed

lemma processLineItems_rejects:
  assumes "i < length items" "snd (snd (processLineItem w qbo i (items ! i))) = Inl e"
  shows "\<exists>e'. snd (processLineItems w qbo items) = Inl e'"
proof -
  have "snd (processLineItem w qbo i (items ! i)) = (fst (snd (processLineItem w qbo i (items ! i))), Inl e)"
    using assms(2) by (cases "snd (processLineItem w qbo i (items ! i))") simp
  with assms(1) have "(fst (snd (processLineItem w qbo i (items ! i))), Inl e)
      \<in> set (map (\<lambda>i. snd (processLineItem w qbo i (items ! i))) [0..<length items])"
    by (simp add: image_iff) (rule bexI [of _ i], simp_all)
  from promise_all_rejects [OF this] show ?thesis
    by (simp add: processLineItems_def Let_def comp_def)
qed

lemma processLineItems_calls: "list_all is_FindItems (fst (processLineItems w qbo items))"
proof -
  have "is_FindItems c" if "c \<in> set (fst (processLineItem w qbo i (items ! i)))" for i c
    using processLineItem_calls [of w qbo i "items ! i"] that by (simp add: list_all_iff)
  then show ?thesis
    by (auto simp: processLineItems_def Let_def list_all_iff)
qed


lemma post_invoices_create_cases [consumes 1, case_names signed_out customer_escaped customer_failed no_customer no_array items_failed created]:
  assumes "post_invoices_create w body = (calls, r)"
  obtains
    "\<not> isAccessTokenValid w" "calls = []"
  | "isAccessTokenValid w"
      "findOrCreateCustomer w (initializeQBO w) body = (calls, None)" "r = NoResponse"
  | e where "isAccessTokenValid w"
      "findOrCreateCustomer w (initializeQBO w) body = (calls, Some (Inl e))" "r = failed_to_create e"
  | customer where "isAccessTokenValid w"
      "findOrCreateCustomer w (initializeQBO w) body = (calls, Some (Inr customer))" "nullish customer"
      "r = failed_to_create (cannot_read customer ''Id'')"
  | customer e where "isAccessTokenValid w"
      "findOrCreateCustomer w (initializeQBO w) body = (calls, Some (Inr customer))" "\<not> nullish customer"
      "\<forall>items. get_prop body ''lineItems'' \<noteq> JArr items" "r = failed_to_create e"
  | calls1 customer items calls2 e where "isAccessTokenValid w"
      "findOrCreateCustomer w (initializeQBO w) body = (calls1, Some (Inr customer))" "\<not> nullish customer"
      "get_prop body ''lineItems'' = JArr items"
      "processLineItems w (initializeQBO w) items = (calls2, Inl e)"
      "calls = calls1 @ calls2" "r = failed_to_create e"
  | calls1 customer items calls2 lines err invoice where "isAccessTokenValid w"
      "findOrCreateCustomer w (initializeQBO w) body = (calls1, Some (Inr customer))" "\<not> nullish customer"
      "get_prop body ''lineItems'' = JArr items"
      "processLineItems w (initializeQBO w) items = (calls2, Inr lines)"
      "createInvoice w (initializeQBO w) (invoiceData customer body lines) = (err, invoice)"
      "calls = calls1 @ calls2 @ [CreateInvoice (invoiceData customer body lines)]"
      "r = createInvoice_callback err invoice"
proof (cases "isAccessTokenValid w")
  case False
  with assms that(1) show ?thesis by (auto simp: post_invoices_create_def Let_def split: if_splits)
next
  case valid: True
  obtain calls1 settled where c: "findOrCreateCustomer w (initializeQBO w) body = (calls1, settled)"
    by (cases "findOrCreateCustomer w (initializeQBO w) body")
  show ?thesis
  proof (cases settled)
    case None
    with assms valid c that(2) show ?thesis
      by (auto simp: post_invoices_create_def Let_def split: if_splits)
  next
    case (Some outcome)
    show ?thesis
    proof (cases outcome)
      case (Inl e)
      with assms valid c Some that(3) show ?thesis
        by (auto simp: post_invoices_create_def Let_def split: if_splits)
    next
      case (Inr customer)
      show ?thesis
      proof (cases "nullish customer")
        case True
        with assms valid c Some Inr that(4) show ?thesis
          by (auto simp: post_invoices_create_def Let_def split: if_splits)
      next
        case cust: False
        show ?thesis
        proof (cases "\<exists>items. get_prop body ''lineItems'' = JArr items")
          case False
          with assms valid c Some Inr cust that(5) [of customer] show ?thesis
            by (cases "get_prop body ''lineItems''")
               (auto simp: post_invoices_create_def Let_def split: if_splits)
        next
          case True
          then obtain items where items: "get_prop body ''lineItems'' = JArr items" by blast
          then have nb: "\<not> nullish body" by (auto simp: nullish_def)
          obtain calls2 settled' where
            p: "processLineItems w (initializeQBO w) items = (calls2, settled')"
            by (cases "processLineItems w (initializeQBO w) items")
          show ?thesis
          proof (cases settled')
            case (Inl e)
            with assms valid c Some Inr cust items nb p that(6) show ?thesis
              by (auto simp: post_invoices_create_def Let_def split: if_splits)
          next
            case lines: (Inr lines)
            obtain err invoice where
              "createInvoice w (initializeQBO w) (invoiceData customer body lines) = (err, invoice)"
              by (cases "createInvoice w (initializeQBO w) (invoiceData customer body lines)")
            with assms valid c Some Inr cust items nb p lines that(7) show ?thesis
              by (auto simp: post_invoices_create_def Let_def split: if_splits)
          qed
        qed
      qed
    qed
  qed
qed

lemma customer_calls_no_invoice:
  "findOrCreateCustomer w qbo body = (calls, settled) \<Longrightarrow> CreateInvoice d \<notin> set calls"
  using findOrCreateCustomer_calls [of w qbo body] by auto

lemma lookup_calls_only:
  "processLineItems w qbo items = (calls, settled) \<Longrightarrow> c \<in> set calls \<Longrightarrow> is_FindItems c"
  using processLineItems_calls [of w qbo items] by (simp add: list_all_iff)

lemma customer_search_issued:
  assumes "findOrCreateCustomer w qbo body = (calls, settled)" "FindCustomers q \<in> set calls"
  shows "\<not> nullish body \<and> q = customer_criteria (get_prop body ''company'')"
  using assms
  by (auto simp: findOrCreateCustomer_def Let_def split: if_splits prod.splits sum.splits)

lemma customer_reused:
  assumes "\<not> nullish body"
    and "findCustomers w qbo (customer_criteria (get_prop body ''company'')) = (err, customers)"
    and "\<not> truthy err" and "customer_found w customers = Inr True"
  shows "findOrCreateCustomer w qbo body =
           ([FindCustomers (customer_criteria (get_prop body ''company''))],
            Some (Inr (index0 (get_prop (get_prop customers ''QueryResponse'') ''Customer''))))"
  using assms by (simp add: findOrCreateCustomer_def)

lemma customer_created:
  assumes "\<not> nullish body"
    and "findCustomers w qbo (customer_criteria (get_prop body ''company'')) = (err, customers)"
    and "\<not> truthy err" and "customer_found w customers = Inr False"
  shows "fst (findOrCreateCustomer w qbo body) =
           [FindCustomers (customer_criteria (get_prop body ''company'')), CreateCustomer (newCustomer body)]
         \<and> snd (findOrCreateCustomer w qbo body) =
           (case createCustomer w qbo (newCustomer body) of
              (err', customer) \<Rightarrow> Some (if truthy err' then Inl (Thrown err') else Inr customer))"
  using assms by (simp add: findOrCreateCustomer_def split: prod.splits)

lemma get_prop_JArr_obj: "get_prop v k = JArr xs \<Longrightarrow> \<exists>kvs. v = JObj kvs"
  by (cases v) (auto split: if_splits)

lemma get_prop_JObj_obj: "get_prop v k = JObj xs \<Longrightarrow> \<exists>kvs. v = JObj kvs"
  by (cases v) (auto split: if_splits)

lemma customer_found_rows:
  assumes "get_prop (get_prop customers ''QueryResponse'') ''Customer'' = JArr (c # cs)"
  shows "customer_found w customers = Inr True"
proof -
  from get_prop_JArr_obj [OF assms] obtain kvs where q: "get_prop customers ''QueryResponse'' = JObj kvs"
    by blast
  from get_prop_JObj_obj [OF this] obtain kvs' where "customers = JObj kvs'" by blast
  with q assms show ?thesis
    by (simp add: customer_found_def gt_zero_def)
qed

lemma only_lookups_filter:
  "list_all is_FindItems xs \<Longrightarrow> filter is_CreateCustomer xs = []"
  by (induction xs) (auto simp: call.disc_eq_case split: call.splits)

lemma only_lookups_no_create:
  "list_all is_FindItems xs \<Longrightarrow> list_all (\<lambda>x. \<not> is_CreateCustomer x) xs"
  by (induction xs) (auto simp: call.disc_eq_case split: call.splits)

lemma newCustomer_fields:
  "get_prop (newCustomer body) ''CompanyName'' = get_prop body ''company''
   \<and> get_prop (newCustomer body) ''PrimaryEmailAddr'' = JObj [(''Address'', get_prop body ''email'')]
   \<and> get_prop (newCustomer body) ''BillAddr'' =
         JObj [(''Line1'', get_prop body ''billingAddress''),
               (''City'', get_prop body ''billingTown''),
               (''CountrySubDivisionCode'', get_prop body ''billingState''),
               (''PostalCode'', get_prop body ''billingZipCode'')]
   \<and> get_prop (newCustomer body) ''ShipAddr'' =
         JObj [(''Line1'', get_prop body ''shippingAddress''),
               (''City'', get_prop body ''shippingTown''),
               (''CountrySubDivisionCode'', get_prop body ''shippingState''),
               (''PostalCode'', get_prop body ''shippingZipCode'')]"
  by (simp add: newCustomer_def)

lemma new_customer_calls:
  assumes "findOrCreateCustomer w (initializeQBO w) body = (calls1, settled)"
    and "FindCustomers q \<in> set calls1"
    and "findCustomers w (initializeQBO w) q = (err, customers)"
    and "\<not> truthy err" and "customer_found w customers = Inr False"
  shows "calls1 = [FindCustomers q, CreateCustomer (newCustomer body)]
         \<and> settled = (case createCustomer w (initializeQBO w) (newCustomer body) of
                        (err', customer) \<Rightarrow> Some (if truthy err' then Inl (Thrown err') else Inr customer))"
proof -
  from customer_search_issued [OF assms(1,2)] have nb: "\<not> nullish body"
    and q: "q = customer_criteria (get_prop body ''company'')" by simp_all
  from customer_created [OF nb assms(3) [unfolded q] assms(4,5)] assms(1) q
  show ?thesis by simp
qed

lemma lookup_fails_rejects:
  "lookup_fails w i item \<Longrightarrow> \<exists>e. snd (snd (processLineItem w (initializeQBO w) i item)) = Inl e"
  by (auto simp: lookup_fails_def catalog_answer_def first_item_def processLineItem_def
                 findItem_def Let_def
           split: prod.splits sum.splits if_splits)

lemma parse_qty: "parseInt n2s (JStr ''2'') = Inr (Fin 2)"
proof -
  have "parseInt_str ''2'' = Fin 2" by code_simp
  then show ?thesis by (simp add: parseInt_def)
qed

lemma parse_price: "parseFloat n2s (JStr ''10.00'') = Inr (Fin 10)"
proof -
  have "parseFloat_str ''10.00'' = Fin 10" by code_simp
  then show ?thesis by (simp add: parseFloat_def)
qed

lemma parse_amount: "parseFloat n2s (JStr ''20.00'') = Inr (Fin 20)"
proof -
  have "parseFloat_str ''20.00'' = Fin 20" by code_simp
  then show ?thesis by (simp add: parseFloat_def)
qed

lemma get_prop_JStr_obj: "get_prop v k = JStr s \<Longrightarrow> \<exists>kvs. v = JObj kvs"
  by (cases v) (auto split: if_splits)

lemma item_found:
  assumes "findItems w qbo i (item_criteria sku) = (err, items)"
    and "\<not> truthy err"
    and "get_prop (get_prop items ''QueryResponse'') ''Item'' = JArr (qboItem # others)"
  shows "findItem w qbo i sku = ([FindItems (item_criteria sku)], Inr qboItem)"
proof -
  from get_prop_JArr_obj [OF assms(3)] obtain kvs where q: "get_prop items ''QueryResponse'' = JObj kvs"
    by blast
  from get_prop_JObj_obj [OF this] obtain kvs' where "items = JObj kvs'" by blast
  with q assms show ?thesis by (simp add: findItem_def)
qed











lemmas run_defs =
  post_invoices_create_def findOrCreateCustomer_def customer_criteria_def customer_found_def
  gt_zero_def processLineItems_def processLineItem_def findItem_def item_criteria_def
  promise_all_def createInvoice_callback_def nullish_def failed_to_create_def not_found_def
  initializeQBO_def line_entry_def parse_qty parse_price parse_amount

subsection \<open>The claims\<close>

text \<open>
  C4. While the access token is not valid (expired, or never obtained),
  \<open>POST /api/invoices/create\<close> answers 401 with a JSON error body and
  \<open>GET /api/invoices\<close> redirects to \<open>/auth\<close>; neither makes any call to the
  accounting API.
\<close>

theorem invalid_token_no_upstream_calls:
  assumes "\<not> isAccessTokenValid w"
  shows "post_invoices_create w body =
           ([], Json 401 (JObj [(''error'', JStr ''Authentication required''),
                                (''message'', JStr ''Please visit /auth endpoint to authenticate with QuickBooks'')]))
         \<and> get_api_invoices w = ([], Redirect ''/auth'')"
  using assms by (simp add: post_invoices_create_def get_api_invoices_def)

theorem invalid_token_no_upstream_calls_witness:
  "\<not> isAccessTokenValid signed_out_world
   \<and> fst (post_invoices_create signed_out_world (body_with [demo_item])) = []
   \<and> get_api_invoices signed_out_world = ([], Redirect ''/auth'')"
proof -
  have h: "\<not> isAccessTokenValid signed_out_world"
    by (simp add: signed_out_world_def demo_world_def)
  show ?thesis
    using h invalid_token_no_upstream_calls [OF h, of "body_with [demo_item]"] by simp
qed

text \<open>
  C7. When the call that creates the invoice succeeds (its callback gets no error and
  an invoice), the handler answers 201 with the body
  \<open>{success: true, message: ..., invoice}\<close>, where \<open>invoice\<close> is the object the
  accounting API returned, unchanged.
\<close>

theorem created_invoice_is_returned:
  assumes "post_invoices_create w body = (calls, r)"
    and "CreateInvoice data \<in> set calls"
    and "createInvoice w (initializeQBO w) data = (err, invoice)"
    and "\<not> truthy err" and "\<not> nullish invoice"
  shows "r = Json 201 (JObj [(''success'', JBool True),
                             (''message'', JStr ''Invoice created successfully''),
                             (''invoice'', invoice)])"
  using assms(1)
proof (cases rule: post_invoices_create_cases)
  case (created calls1 customer items calls2 lines err' invoice')
  from assms(2) created(2,5,7) have "data = invoiceData customer body lines"
    by (auto dest: customer_calls_no_invoice lookup_calls_only)
  with created(6,8) assms(3-5) show ?thesis
    by (simp add: createInvoice_callback_def)
next
  case (items_failed calls1 customer items calls2 e)
  with assms(2) show ?thesis
    by (auto dest: customer_calls_no_invoice lookup_calls_only)
qed (use assms(2) in \<open>auto dest: customer_calls_no_invoice\<close>)

theorem created_invoice_is_returned_witness:
  "CreateInvoice demo_invoice \<in> set (fst (post_invoices_create demo_world (body_with [demo_item])))
   \<and> createInvoice demo_world (initializeQBO demo_world) demo_invoice = (JNull, JObj [(''Id'', JStr ''130'')])
   \<and> snd (post_invoices_create demo_world (body_with [demo_item])) =
       Json 201 (JObj [(''success'', JBool True),
                       (''message'', JStr ''Invoice created successfully''),
                       (''invoice'', JObj [(''Id'', JStr ''130'')])])"
proof -
  have h1: "post_invoices_create demo_world (body_with [demo_item]) =
              (fst (post_invoices_create demo_world (body_with [demo_item])),
               snd (post_invoices_create demo_world (body_with [demo_item])))"
    by simp
  have h2: "CreateInvoice demo_invoice \<in> set (fst (post_invoices_create demo_world (body_with [demo_item])))"
    by (simp add: run_defs demo_defs demo_invoice_def)
  have h3: "createInvoice demo_world (initializeQBO demo_world) demo_invoice = (JNull, JObj [(''Id'', JStr ''130'')])"
    by (simp add: demo_world_def)
  have h4: "\<not> truthy JNull" by simp
  have h5: "\<not> nullish (JObj [(''Id'', JStr ''130'')])" by (simp add: nullish_def)
  from created_invoice_is_returned [OF h1 h2 h3 h4 h5] h2 h3 show ?thesis by simp
qed

text \<open>
  C2. When the search by company name, made with a valid token, returns at least one
  customer, the handler makes no call that creates a customer: the helper resolves
  with the first customer returned, as it is, and an invoice that is then created
  refers to that customer's \<open>Id\<close>.
\<close>

theorem existing_customer_is_reused:
  assumes "post_invoices_create w body = (calls, r)"
    and "FindCustomers q \<in> set calls"
    and "findCustomers w (initializeQBO w) q = (err, customers)"
    and "\<not> truthy err"
    and "get_prop (get_prop customers ''QueryResponse'') ''Customer'' = JArr (c # cs)"
  shows "list_all (\<lambda>x. \<not> is_CreateCustomer x) calls
         \<and> findOrCreateCustomer w (initializeQBO w) body = ([FindCustomers q], Some (Inr c))
         \<and> (\<forall>data. CreateInvoice data \<in> set calls \<longrightarrow>
               get_prop data ''CustomerRef'' = JObj [(''value'', get_prop c ''Id'')])"
proof -
  have reuse: "findOrCreateCustomer w (initializeQBO w) body = ([FindCustomers q], Some (Inr c))"
    if "findOrCreateCustomer w (initializeQBO w) body = (calls1, settled)"
      and "FindCustomers q \<in> set calls1" for calls1 settled
  proof -
    from customer_search_issued [OF that] have nb: "\<not> nullish body"
      and q: "q = customer_criteria (get_prop body ''company'')" by simp_all
    from customer_reused [OF nb assms(3) [unfolded q] assms(4) customer_found_rows [OF assms(5)]]
    show ?thesis using assms(5) q by simp
  qed
  from assms(1) show ?thesis
  proof (cases rule: post_invoices_create_cases)
    case signed_out
    with assms(2) show ?thesis by simp
  next
    case customer_escaped
    from reuse [OF customer_escaped(2)] assms(2) customer_escaped(2) show ?thesis by simp
  next
    case (customer_failed e)
    from reuse [OF customer_failed(2)] assms(2) customer_failed(2) show ?thesis by simp
  next
    case (no_customer customer)
    from reuse [OF no_customer(2)] assms(2) no_customer(2) show ?thesis by simp
  next
    case (no_array customer e)
    from reuse [OF no_array(2)] assms(2) no_array(2) show ?thesis by simp
  next
    case (items_failed calls1 customer items calls2 e)
    from assms(2) items_failed(5,6) have "FindCustomers q \<in> set calls1"
      by (auto dest: lookup_calls_only)
    from reuse [OF items_failed(2) this] items_failed(2,5,6) show ?thesis
      using processLineItems_calls [of w "initializeQBO w" items]
      by (auto simp: only_lookups_no_create dest: lookup_calls_only)
  next
    case (created calls1 customer items calls2 lines err' invoice)
    from assms(2) created(5,7) have "FindCustomers q \<in> set calls1"
      by (auto dest: lookup_calls_only)
    from reuse [OF created(2) this] created(2,5,7) show ?thesis
      using processLineItems_calls [of w "initializeQBO w" items]
      by (auto simp: only_lookups_no_create invoiceData_def dest: lookup_calls_only)
  qed
qed

theorem existing_customer_is_reused_witness:
  "FindCustomers (customer_criteria (JStr ''Acme''))
     \<in> set (fst (post_invoices_create demo_world (body_with [demo_item])))
   \<and> list_all (\<lambda>x. \<not> is_CreateCustomer x) (fst (post_invoices_create demo_world (body_with [demo_item])))
   \<and> CreateInvoice demo_invoice \<in> set (fst (post_invoices_create demo_world (body_with [demo_item])))
   \<and> get_prop demo_invoice ''CustomerRef'' = JObj [(''value'', JStr ''7'')]"
proof -
  let ?B = "body_with [demo_item]"
  let ?customers = "JObj [(''QueryResponse'', JObj [(''Customer'', JArr [JObj [(''Id'', JStr ''7'')]])])]"
  have h1: "post_invoices_create demo_world ?B =
              (fst (post_invoices_create demo_world ?B), snd (post_invoices_create demo_world ?B))"
    by simp
  have h2: "FindCustomers (customer_criteria (JStr ''Acme'')) \<in> set (fst (post_invoices_create demo_world ?B))"
    by (simp add: run_defs demo_defs)
  have h3: "findCustomers demo_world (initializeQBO demo_world) (customer_criteria (JStr ''Acme''))
              = (JNull, ?customers)"
    by (simp add: demo_world_def)
  have h4: "\<not> truthy JNull" by simp
  have h5: "get_prop (get_prop ?customers ''QueryResponse'') ''Customer'' = JArr (JObj [(''Id'', JStr ''7'')] # [])"
    by simp
  have h6: "CreateInvoice demo_invoice \<in> set (fst (post_invoices_create demo_world ?B))"
    by (simp add: run_defs demo_defs demo_invoice_def)
  from existing_customer_is_reused [OF h1 h2 h3 h4 h5] h2 h6 show ?thesis by auto
qed

text \<open>
  C3. When the search by company name, made with a valid token, finds no customer,
  the request makes exactly one call that creates a customer, and its payload carries
  the company name, the email and the billing and shipping address fields of the
  request body.
\<close>

theorem new_customer_created_once:
  assumes "post_invoices_create w body = (calls, r)"
    and "FindCustomers q \<in> set calls"
    and "findCustomers w (initializeQBO w) q = (err, customers)"
    and "\<not> truthy err"
    and "customer_found w customers = Inr False"
  shows "filter is_CreateCustomer calls = [CreateCustomer (newCustomer body)]
         \<and> get_prop (newCustomer body) ''CompanyName'' = get_prop body ''company''
         \<and> get_prop (newCustomer body) ''PrimaryEmailAddr'' = JObj [(''Address'', get_prop body ''email'')]
         \<and> get_prop (newCustomer body) ''BillAddr'' =
               JObj [(''Line1'', get_prop body ''billingAddress''),
                     (''City'', get_prop body ''billingTown''),
                     (''CountrySubDivisionCode'', get_prop body ''billingState''),
                     (''PostalCode'', get_prop body ''billingZipCode'')]
         \<and> get_prop (newCustomer body) ''ShipAddr'' =
               JObj [(''Line1'', get_prop body ''shippingAddress''),
                     (''City'', get_prop body ''shippingTown''),
                     (''CountrySubDivisionCode'', get_prop body ''shippingState''),
                     (''PostalCode'', get_prop body ''shippingZipCode'')]"
proof -
  note new = new_customer_calls [OF _ _ assms(3-5)]
  have "filter is_CreateCustomer calls = [CreateCustomer (newCustomer body)]"
    using assms(1)
  proof (cases rule: post_invoices_create_cases)
    case signed_out
    with assms(2) show ?thesis by simp
  next
    case customer_escaped
    from new [OF customer_escaped(2)] assms(2) show ?thesis by simp
  next
    case (customer_failed e)
    from new [OF customer_failed(2)] assms(2) show ?thesis by simp
  next
    case (no_customer customer)
    from new [OF no_customer(2)] assms(2) show ?thesis by simp
  next
    case (no_array customer e)
    from new [OF no_array(2)] assms(2) show ?thesis by simp
  next
    case (items_failed calls1 customer items calls2 e)
    from assms(2) items_failed(5,6) have "FindCustomers q \<in> set calls1"
      by (auto dest: lookup_calls_only)
    from new [OF items_failed(2) this] items_failed(5,6) show ?thesis
      using processLineItems_calls [of w "initializeQBO w" items]
      by (simp add: only_lookups_filter)
  next
    case (created calls1 customer items calls2 lines err' invoice)
    from assms(2) created(5,7) have "FindCustomers q \<in> set calls1"
      by (auto dest: lookup_calls_only)
    from new [OF created(2) this] created(5,7) show ?thesis
      using processLineItems_calls [of w "initializeQBO w" items]
      by (simp add: only_lookups_filter)
  qed
  then show ?thesis using newCustomer_fields [of body] by simp
qed

theorem new_customer_created_once_witness:
  "FindCustomers (customer_criteria (JStr ''Acme''))
     \<in> set (fst (post_invoices_create new_company_world (body_with [demo_item])))
   \<and> customer_found new_company_world no_rows = Inr False
   \<and> filter is_CreateCustomer (fst (post_invoices_create new_company_world (body_with [demo_item])))
       = [CreateCustomer (newCustomer (body_with [demo_item]))]
   \<and> get_prop (newCustomer (body_with [demo_item])) ''CompanyName'' = JStr ''Acme''"
proof -
  let ?B = "body_with [demo_item]"
  have h1: "post_invoices_create new_company_world ?B =
              (fst (post_invoices_create new_company_world ?B), snd (post_invoices_create new_company_world ?B))"
    by simp
  have h2: "FindCustomers (customer_criteria (JStr ''Acme'')) \<in> set (fst (post_invoices_create new_company_world ?B))"
    by (simp add: run_defs demo_defs new_company_world_def)
  have h3: "findCustomers new_company_world (initializeQBO new_company_world) (customer_criteria (JStr ''Acme''))
              = (JNull, no_rows)"
    by (simp add: new_company_world_def demo_world_def)
  have h4: "\<not> truthy JNull" by simp
  have h5: "customer_found new_company_world no_rows = Inr False"
    by (simp add: customer_found_def no_rows_def)
  have h6: "get_prop ?B ''company'' = JStr ''Acme''" by (simp add: body_with_def)
  from new_customer_created_once [OF h1 h2 h3 h4 h5] h2 h5 h6 show ?thesis by simp
qed

text \<open>
  C8. When the customer has just been created and the lookup of a line item then
  fails, the calls of the request are the search, the creation of the customer, and
  catalog lookups, nothing else: no call undoes the creation, and no invoice is
  created. The response is a 500.
\<close>

theorem no_rollback_of_new_customer:
  assumes "post_invoices_create w body = (calls, r)"
    and "FindCustomers q \<in> set calls"
    and "findCustomers w (initializeQBO w) q = (err, customers)"
    and "\<not> truthy err"
    and "customer_found w customers = Inr False"
    and "createCustomer w (initializeQBO w) (newCustomer body) = (err', customer)"
    and "\<not> truthy err'"
    and "get_prop body ''lineItems'' = JArr items"
    and "i < length items"
    and "lookup_fails w i (items ! i)"
  shows "take 2 calls = [FindCustomers q, CreateCustomer (newCustomer body)]
         \<and> list_all is_FindItems (drop 2 calls)
         \<and> (\<exists>d. r = Json 500 (JObj [(''error'', JStr ''Failed to create invoice''), (''details'', d)]))"
proof -
  note new = new_customer_calls [OF _ _ assms(3-5)]
  from assms(1) show ?thesis
  proof (cases rule: post_invoices_create_cases)
    case signed_out
    with assms(2) show ?thesis by simp
  next
    case customer_escaped
    from new [OF customer_escaped(2)] assms(2,6) show ?thesis by simp
  next
    case (customer_failed e)
    from new [OF customer_failed(2)] assms(2,6,7) show ?thesis by simp
  next
    case (no_customer c)
    from new [OF no_customer(2)] assms(2) no_customer(4) show ?thesis
      by (simp add: failed_to_create_def)
  next
    case (no_array c e)
    with assms(8) show ?thesis by simp
  next
    case (items_failed calls1 c items' calls2 e)
    from assms(2) items_failed(5,6) have "FindCustomers q \<in> set calls1"
      by (auto dest: lookup_calls_only)
    from new [OF items_failed(2) this] items_failed(5,6,7) show ?thesis
      using processLineItems_calls [of w "initializeQBO w" items']
      by (simp add: failed_to_create_def)
  next
    case (created calls1 c items' calls2 lines err'' invoice)
    from created(4) assms(8) have "items' = items" by simp
    with lookup_fails_rejects [OF assms(10)] processLineItems_rejects [OF assms(9)] created(5)
    show ?thesis by fastforce
  qed
qed

theorem no_rollback_of_new_customer_witness:
  "lookup_fails new_company_world 1 unknown_item
   \<and> fst (post_invoices_create new_company_world (body_with [demo_item, unknown_item])) =
       [FindCustomers (customer_criteria (JStr ''Acme'')),
        CreateCustomer (newCustomer (body_with [demo_item, unknown_item])),
        FindItems (item_criteria (JStr ''A1'')),
        FindItems (item_criteria (JStr ''X9''))]
   \<and> list_all is_FindItems (drop 2 (fst (post_invoices_create new_company_world (body_with [demo_item, unknown_item]))))
   \<and> (\<exists>d. snd (post_invoices_create new_company_world (body_with [demo_item, unknown_item])) =
            Json 500 (JObj [(''error'', JStr ''Failed to create invoice''), (''details'', d)]))"
proof -
  let ?B = "body_with [demo_item, unknown_item]"
  let ?w = new_company_world
  have calls: "fst (post_invoices_create ?w ?B) =
       [FindCustomers (customer_criteria (JStr ''Acme'')),
        CreateCustomer (newCustomer ?B),
        FindItems (item_criteria (JStr ''A1'')),
        FindItems (item_criteria (JStr ''X9''))]"
    by (simp add: run_defs demo_defs new_company_world_def unknown_item_def upt_rec)
  have h1: "post_invoices_create ?w ?B = (fst (post_invoices_create ?w ?B), snd (post_invoices_create ?w ?B))"
    by simp
  have h2: "FindCustomers (customer_criteria (JStr ''Acme'')) \<in> set (fst (post_invoices_create ?w ?B))"
    by (simp add: calls)
  have h3: "findCustomers ?w (initializeQBO ?w) (customer_criteria (JStr ''Acme'')) = (JNull, no_rows)"
    by (simp add: new_company_world_def demo_world_def)
  have h4: "\<not> truthy JNull" by simp
  have h5: "customer_found ?w no_rows = Inr False"
    by (simp add: customer_found_def no_rows_def)
  have h6: "createCustomer ?w (initializeQBO ?w) (newCustomer ?B) = (JNull, JObj [(''Id'', JStr ''8'')])"
    by (simp add: new_company_world_def demo_world_def)
  have h8: "get_prop ?B ''lineItems'' = JArr [demo_item, unknown_item]"
    by (simp add: body_with_def)
  have h9: "1 < length [demo_item, unknown_item]" by simp
  have h10: "lookup_fails ?w 1 ([demo_item, unknown_item] ! 1)"
    by (simp add: lookup_fails_def catalog_answer_def first_item_def item_criteria_def nullish_def
                  demo_defs new_company_world_def unknown_item_def)
  from no_rollback_of_new_customer [OF h1 h2 h3 h4 h5 h6 h4 h8 h9 h10] calls h10
  show ?thesis by simp
qed

text \<open>
  C5. \<open>GET /api/invoices\<close> when listing the invoices fails with a 401. The SDK
  reports a failure to the callback; there the handler answers 500 whatever the error
  is. Only an error thrown inside the \<open>try\<close> reaches the \<open>catch\<close> clause that looks
  for the status 401 and redirects to \<open>/auth\<close>.
\<close>

theorem list_invoices_401_in_callback:
  "get_api_invoices (demo_world \<lparr> findInvoices := (\<lambda>qbo q. CallsBack unauthorized JUndefined) \<rparr>) =
     ([FindInvoices (JObj [(''fetchAll'', JBool True)])],
      Json 500 (JObj [(''error'', JStr ''Failed to fetch invoices'')]))
   \<and> get_api_invoices (demo_world \<lparr> findInvoices := (\<lambda>qbo q. Throws unauthorized) \<rparr>) =
     ([FindInvoices (JObj [(''fetchAll'', JBool True)])], Redirect ''/auth'')"
  by (simp add: get_api_invoices_def demo_defs unauthorized_def failed_to_fetch_def nullish_def)

text \<open>
  C6. For a request whose line items are
  \<open>[{sku: "A1", quantity: "2", unitPrice: "10.00", totalAmount: "20.00"}]\<close>, when the
  catalog lookup for \<open>A1\<close> returns an item whose \<open>Id\<close> is \<open>"99"\<close>, the invoice payload
  that the handler assembles has one line entry, with \<open>Qty\<close> the number 2 (from
  \<open>parseInt\<close>), \<open>UnitPrice\<close> the number 10 (from \<open>parseFloat\<close>) and
  \<open>ItemRef.value\<close> the string \<open>"99"\<close>.
\<close>

theorem line_entry_example:
  assumes "get_prop body ''lineItems'' =
             JArr [JObj [(''sku'', JStr ''A1''), (''quantity'', JStr ''2''),
                         (''unitPrice'', JStr ''10.00''), (''totalAmount'', JStr ''20.00'')]]"
    and "findItems w (initializeQBO w) 0 (item_criteria (JStr ''A1'')) = (err, items)"
    and "\<not> truthy err"
    and "get_prop (get_prop items ''QueryResponse'') ''Item'' = JArr (qboItem # others)"
    and "get_prop qboItem ''Id'' = JStr ''99''"
    and "CreateInvoice data \<in> set (fst (post_invoices_create w body))"
  shows "get_prop data ''Line'' =
           JArr [JObj [(''Amount'', JNum (Fin 20)),
                       (''DetailType'', JStr ''SalesItemLineDetail''),
                       (''Description'', JUndefined),
                       (''SalesItemLineDetail'',
                          JObj [(''ItemRef'', JObj [(''value'', JStr ''99''),
                                                   (''name'', get_prop qboItem ''Name'')]),
                                (''Qty'', JNum (Fin 2)),
                                (''UnitPrice'', JNum (Fin 10))])]]"
proof -
  let ?item = "JObj [(''sku'', JStr ''A1''), (''quantity'', JStr ''2''),
                     (''unitPrice'', JStr ''10.00''), (''totalAmount'', JStr ''20.00'')]"
  let ?entry = "JObj [(''Amount'', JNum (Fin 20)),
                       (''DetailType'', JStr ''SalesItemLineDetail''),
                       (''Description'', JUndefined),
                       (''SalesItemLineDetail'',
                          JObj [(''ItemRef'', JObj [(''value'', JStr ''99''),
                                                   (''name'', get_prop qboItem ''Name'')]),
                                (''Qty'', JNum (Fin 2)),
                                (''UnitPrice'', JNum (Fin 10))])]"
  from get_prop_JStr_obj [OF assms(5)] have t: "truthy qboItem" by auto
  have "findItem w (initializeQBO w) 0 (JStr ''A1'') = ([FindItems (item_criteria (JStr ''A1''))], Inr qboItem)"
    by (rule item_found [OF assms(2-4)])
  with t assms(5) have "snd (snd (processLineItem w (initializeQBO w) 0 ?item)) = Inr ?entry"
    by (simp add: processLineItem_def nullish_def line_entry_def parse_qty parse_price parse_amount)
  then have lines: "snd (processLineItems w (initializeQBO w) [?item]) = Inr [?entry]"
    by (cases "processLineItem w (initializeQBO w) 0 ?item")
       (simp add: processLineItems_def promise_all_def)
  obtain calls r where run: "post_invoices_create w body = (calls, r)"
    by (cases "post_invoices_create w body")
  with assms(6) have mem: "CreateInvoice data \<in> set calls" by simp
  from run show ?thesis
  proof (cases rule: post_invoices_create_cases)
    case (created calls1 customer items' calls2 lines' err' invoice)
    from created(4) assms(1) have "items' = [?item]" by simp
    with lines created(5) have "lines' = [?entry]" by simp
    moreover from mem created(2,5,7) have "data = invoiceData customer body lines'"
      by (auto dest: customer_calls_no_invoice lookup_calls_only)
    ultimately show ?thesis by (simp add: invoiceData_def)
  next
    case (items_failed calls1 customer items' calls2 e)
    with mem show ?thesis by (auto dest: customer_calls_no_invoice lookup_calls_only)
  qed (use mem in \<open>auto dest: customer_calls_no_invoice\<close>)
qed

theorem line_entry_example_witness:
  "CreateInvoice demo_invoice \<in> set (fst (post_invoices_create demo_world (body_with [demo_item])))
   \<and> get_prop demo_invoice ''Line'' =
       JArr [JObj [(''Amount'', JNum (Fin 20)),
                   (''DetailType'', JStr ''SalesItemLineDetail''),
                   (''Description'', JUndefined),
                   (''SalesItemLineDetail'',
                      JObj [(''ItemRef'', JObj [(''value'', JStr ''99''), (''name'', JStr ''Widget'')]),
                            (''Qty'', JNum (Fin 2)),
                            (''UnitPrice'', JNum (Fin 10))])]]"
proof -
  let ?B = "body_with [demo_item]"
  let ?items = "JObj [(''QueryResponse'',
                 JObj [(''Item'', JArr [JObj [(''Id'', JStr ''99''), (''Name'', JStr ''Widget'')]])])]"
  have h1: "get_prop ?B ''lineItems'' =
             JArr [JObj [(''sku'', JStr ''A1''), (''quantity'', JStr ''2''),
                         (''unitPrice'', JStr ''10.00''), (''totalAmount'', JStr ''20.00'')]]"
    by (simp add: body_with_def demo_item_def)
  have h2: "findItems demo_world (initializeQBO demo_world) 0 (item_criteria (JStr ''A1'')) = (JNull, ?items)"
    by (simp add: demo_world_def)
  have h3: "\<not> truthy JNull" by simp
  have h4: "get_prop (get_prop ?items ''QueryResponse'') ''Item'' =
              JArr (JObj [(''Id'', JStr ''99''), (''Name'', JStr ''Widget'')] # [])"
    by simp
  have h5: "get_prop (JObj [(''Id'', JStr ''99''), (''Name'', JStr ''Widget'')]) ''Id'' = JStr ''99''"
    by simp
  have h6: "CreateInvoice demo_invoice \<in> set (fst (post_invoices_create demo_world ?B))"
    by (simp add: run_defs demo_defs demo_invoice_def)
  from line_entry_example [OF h1 h2 h3 h4 h5 h6] h6 show ?thesis by simp
qed







text \<open>
  C9 as it is stated says that after a failed exchange the OAuth client holds the token
  it held before. The handler writes nothing then, but \<open>createToken\<close> is the SDK's: it
  works on the held token before its promise settles. Here it has written the
  \<open>realmId\<close> of the callback URL into it when the exchange is refused, and the client
  ends with a token that differs from the one it had.
\<close>

theorem callback_token_counterexample:
  "createToken failed_exchange_world callback_url demo_token =
     (demo_token \<lparr> realmId := JStr ''999'' \<rparr>, Rejected (JObj [(''message'', JStr ''invalid_grant'')]))
   \<and> get_callback failed_exchange_world callback_url demo_token =
       ([], demo_token \<lparr> realmId := JStr ''999'' \<rparr>,
        Json 500 (JObj [(''error'', JStr ''Authentication failed''),
                        (''details'', JStr ''invalid_grant'')]))
   \<and> get_callback_variant failed_exchange_world callback_url demo_token =
       ([], demo_token \<lparr> realmId := JStr ''999'' \<rparr>,
        Json 500 (JObj [(''error'', JStr ''Authentication failed'')]))
   \<and> demo_token \<lparr> realmId := JStr ''999'' \<rparr> \<noteq> demo_token"
  by (simp add: get_callback_def get_callback_variant_def failed_exchange_world_def
                demo_world_def demo_token_def nullish_def)

text \<open>
  C9, as amended. In both variants of \<open>GET /callback\<close> the handler calls \<open>setToken\<close>
  only when the token exchange succeeds, and then with the token that the exchange
  returned. When the exchange fails the handler makes no \<open>setToken\<close> call and answers
  500 to an error object; the token that the OAuth client then holds is the one that
  \<open>createToken\<close> left, which the handler does not touch.
\<close>

theorem callback_sets_token_only_on_success:
  "(\<forall>held error. createToken w url stored = (held, Rejected error) \<longrightarrow>
       get_callback w url stored =
         ([], held, if nullish error then NoResponse
                    else Json 500 (JObj [(''error'', JStr ''Authentication failed''),
                                         (''details'', get_prop error ''message'')]))
       \<and> get_callback_variant w url stored =
         ([], held, if nullish error then NoResponse
                    else Json 500 (JObj [(''error'', JStr ''Authentication failed'')])))
   \<and> (\<forall>held t. createToken w url stored = (held, Resolved t) \<longrightarrow>
         fst (get_callback w url stored) = [t] \<and> fst (snd (get_callback w url stored)) = t
         \<and> fst (get_callback_variant w url stored) = [t]
         \<and> fst (snd (get_callback_variant w url stored)) = t)
   \<and> (fst (get_callback w url stored) \<noteq> [] \<or> fst (get_callback_variant w url stored) \<noteq> []
        \<longrightarrow> (\<exists>held t. createToken w url stored = (held, Resolved t)))"
  by (cases "createToken w url stored"; cases "snd (createToken w url stored)")
     (auto simp: get_callback_def get_callback_variant_def)

theorem callback_sets_token_only_on_success_witness:
  "createToken failed_exchange_world callback_url demo_token =
     (demo_token \<lparr> realmId := JStr ''999'' \<rparr>, Rejected (JObj [(''message'', JStr ''invalid_grant'')]))
   \<and> fst (get_callback failed_exchange_world callback_url demo_token) = []
   \<and> snd (snd (get_callback failed_exchange_world callback_url demo_token)) =
       Json 500 (JObj [(''error'', JStr ''Authentication failed''),
                       (''details'', JStr ''invalid_grant'')])
   \<and> fst (get_callback demo_world callback_url demo_token) =
       [\<lparr> realmId = JStr ''4620816365'', access_token = JStr ''at2'', refresh_token = JStr ''rt2'' \<rparr>]"
proof -
  have h: "createToken failed_exchange_world callback_url demo_token =
     (demo_token \<lparr> realmId := JStr ''999'' \<rparr>, Rejected (JObj [(''message'', JStr ''invalid_grant'')]))"
    by (simp add: failed_exchange_world_def demo_world_def)
  have h': "createToken demo_world callback_url demo_token =
     (demo_token \<lparr> realmId := JStr ''4620816365'' \<rparr>,
      Resolved \<lparr> realmId = JStr ''4620816365'', access_token = JStr ''at2'', refresh_token = JStr ''rt2'' \<rparr>)"
    by (simp add: demo_world_def)
  from callback_sets_token_only_on_success [of failed_exchange_world callback_url demo_token]
    callback_sets_token_only_on_success [of demo_world callback_url demo_token] h h'
  show ?thesis by (simp add: nullish_def)
qed

end
